theory Spec2Isabelle
  imports Main "HOL-Library.Sublist"
begin

section \<open>The palindrome toolkit of \<^verbatim>\<open>palindrome_app.py\<close>\<close>

subsection \<open>Python strings and the interpreter they run on\<close>

text \<open>
  A Python \<^verbatim>\<open>str\<close> is a sequence of Unicode code points, so \<^verbatim>\<open>len\<close> counts code
  points. A code point is a natural number here and a string a list of them.
\<close>

type_synonym codepoint = nat
type_synonym pystr = "codepoint list"

text \<open>
  Three things the source calls are decided by the interpreter and not by the repository:
  \<^item> \<^verbatim>\<open>str.lower\<close> beyond ASCII follows the Unicode character database. One code point may
    lower to several (U+0130 lowers to U+0069 U+0307), and one rule (capital sigma) looks at
    the neighbours, so the table receives the whole text and the position;
  \<^item> \<^verbatim>\<open>str.isalnum\<close> beyond ASCII follows the same database, code point by code point;
  \<^item> \<^verbatim>\<open>str(int)\<close> raises \<^verbatim>\<open>ValueError\<close> when the number has more digits than
    \<^verbatim>\<open>sys.get_int_max_str_digits()\<close>; 0 switches the guard off, CPython starts with 4300.

  They are fields of a record that every operation depending on them receives. The ASCII
  rows of both tables are fixed by the definitions below and never read from the record.
\<close>

record py_runtime =
  lower_tab :: "pystr \<Rightarrow> nat \<Rightarrow> pystr"
  alnum_tab :: "codepoint \<Rightarrow> bool"
  int_max_str_digits :: nat

datatype py_error = ValueError

definition ascii_alnum :: "codepoint \<Rightarrow> bool" where
  "ascii_alnum c \<longleftrightarrow> (97 \<le> c \<and> c \<le> 122) \<or> (65 \<le> c \<and> c \<le> 90) \<or> (48 \<le> c \<and> c \<le> 57)"

definition ascii_lower :: "codepoint \<Rightarrow> codepoint" where
  "ascii_lower c = (if 65 \<le> c \<and> c \<le> 90 then c + 32 else c)"

definition lower_at :: "py_runtime \<Rightarrow> pystr \<Rightarrow> nat \<Rightarrow> pystr" where
  "lower_at rt s i = (if s ! i < 128 then [ascii_lower (s ! i)] else lower_tab rt s i)"

definition lower :: "py_runtime \<Rightarrow> pystr \<Rightarrow> pystr" where
  "lower rt s = concat (map (lower_at rt s) [0..<length s])"

definition isalnum_cp :: "py_runtime \<Rightarrow> codepoint \<Rightarrow> bool" where
  "isalnum_cp rt c = (if c < 128 then ascii_alnum c else alnum_tab rt c)"

text \<open>\<^verbatim>\<open>"".isalnum()\<close> is \<^verbatim>\<open>False\<close>: the method wants at least one character.\<close>

definition isalnum :: "py_runtime \<Rightarrow> pystr \<Rightarrow> bool" where
  "isalnum rt s \<longleftrightarrow> s \<noteq> [] \<and> list_all (isalnum_cp rt) s"

subsection \<open>Slices\<close>

text \<open>
  CPython first brings a given bound into range (\<^verbatim>\<open>PySlice_AdjustIndices\<close>): a negative
  bound counts from the end, and what still lies outside is clamped, to \<open>-1\<close> and
  \<open>len - 1\<close> when the step is negative, to \<open>0\<close> and \<open>len\<close> otherwise. The source slices
  with the default step (\<^verbatim>\<open>text[i:j]\<close>) and with step \<open>-1\<close> (\<^verbatim>\<open>s[::-1]\<close>,
  \<^verbatim>\<open>word[-2::-1]\<close>); a slice never raises.
\<close>

definition adjust_index :: "int \<Rightarrow> bool \<Rightarrow> int \<Rightarrow> int" where
  "adjust_index len down k =
     (if k < 0 then (if k + len < 0 then (if down then - 1 else 0) else k + len)
      else if len \<le> k then (if down then len - 1 else len)
      else k)"

definition slice_up :: "'a list \<Rightarrow> int option \<Rightarrow> int option \<Rightarrow> 'a list" where
  "slice_up xs start stop =
     (let len = int (length xs);
          a = (case start of None \<Rightarrow> 0 | Some k \<Rightarrow> adjust_index len False k);
          b = (case stop of None \<Rightarrow> len | Some k \<Rightarrow> adjust_index len False k)
      in map (\<lambda>k. xs ! nat (a + int k)) [0..<nat (b - a)])"

definition slice_down :: "'a list \<Rightarrow> int option \<Rightarrow> int option \<Rightarrow> 'a list" where
  "slice_down xs start stop =
     (let len = int (length xs);
          a = (case start of None \<Rightarrow> len - 1 | Some k \<Rightarrow> adjust_index len True k);
          b = (case stop of None \<Rightarrow> - 1 | Some k \<Rightarrow> adjust_index len True k)
      in map (\<lambda>k. xs ! nat (a - int k)) [0..<nat (a - b)])"

subsection \<open>\<^verbatim>\<open>re.sub\<close> with a negated character class\<close>

text \<open>
  The pattern \<^verbatim>\<open>[^a-zA-Z0-9]\<close> is one negated class of three ranges, compiled without
  flags. \<^verbatim>\<open>re.sub\<close> scans from the left and puts the replacement in the place of every
  character the class matches.
\<close>

definition in_ranges :: "(codepoint \<times> codepoint) list \<Rightarrow> codepoint \<Rightarrow> bool" where
  "in_ranges rs c = list_ex (\<lambda>(lo, hi). lo \<le> c \<and> c \<le> hi) rs"

definition not_a_zA_Z0_9 :: "codepoint \<Rightarrow> bool" where
  "not_a_zA_Z0_9 c = (\<not> in_ranges [(97, 122), (65, 90), (48, 57)] c)"

fun re_sub :: "(codepoint \<Rightarrow> bool) \<Rightarrow> pystr \<Rightarrow> pystr \<Rightarrow> pystr" where
  "re_sub cls repl [] = []"
| "re_sub cls repl (c # cs) = (if cls c then repl @ re_sub cls repl cs else c # re_sub cls repl cs)"

subsection \<open>The operations\<close>

text \<open>Lines 32 to 39 of \<^verbatim>\<open>is_palindrome\<close>: strip first, then fold the case.\<close>

definition processed :: "py_runtime \<Rightarrow> pystr \<Rightarrow> bool \<Rightarrow> bool \<Rightarrow> pystr" where
  "processed rt text ignore_case ignore_spaces =
     (let p = text;
          p = (if ignore_spaces then re_sub not_a_zA_Z0_9 [] p else p);
          p = (if ignore_case then lower rt p else p)
      in p)"

definition is_palindrome :: "py_runtime \<Rightarrow> pystr \<Rightarrow> bool \<Rightarrow> bool \<Rightarrow> bool" where
  "is_palindrome rt text ignore_case ignore_spaces =
     (if text = [] then False
      else let p = processed rt text ignore_case ignore_spaces
           in p = slice_down p None None)"

text \<open>The argument of \<^verbatim>\<open>is_number_palindrome\<close> is an \<^verbatim>\<open>int\<close> or a \<^verbatim>\<open>str\<close>.\<close>

datatype number_arg = IntArg int | StrArg pystr

fun digits :: "nat \<Rightarrow> pystr" where
  "digits n = (if n < 10 then [48 + n] else digits (n div 10) @ [48 + n mod 10])"

declare digits.simps [simp del]

text \<open>
  Reading a string of decimal digits back as a number. No operation calls it; it says what
  it means that \<open>digits\<close> writes a number in decimal.
\<close>

definition decimal_value :: "pystr \<Rightarrow> nat" where
  "decimal_value ds = foldl (\<lambda>a d. 10 * a + (d - 48)) 0 ds"

definition str_int :: "py_runtime \<Rightarrow> int \<Rightarrow> py_error + pystr" where
  "str_int rt n =
     (let ds = digits (nat \<bar>n\<bar>)
      in if int_max_str_digits rt \<noteq> 0 \<and> int_max_str_digits rt < length ds then Inl ValueError
         else Inr (if n < 0 then 45 # ds else ds))"

definition py_str :: "py_runtime \<Rightarrow> number_arg \<Rightarrow> py_error + pystr" where
  "py_str rt number = (case number of IntArg n \<Rightarrow> str_int rt n | StrArg s \<Rightarrow> Inr s)"

definition is_number_palindrome :: "py_runtime \<Rightarrow> number_arg \<Rightarrow> py_error + bool" where
  "is_number_palindrome rt number =
     (case py_str rt number of
        Inl e \<Rightarrow> Inl e
      | Inr num_str \<Rightarrow> Inr (num_str = slice_down num_str None None))"

definition is_strict_palindrome :: "pystr \<Rightarrow> bool" where
  "is_strict_palindrome text = (if text = [] then False else text = slice_down text None None)"

text \<open>
  The two loops of \<^verbatim>\<open>find_palindromes\<close>: \<^verbatim>\<open>range(n)\<close> is \<open>[0..<n]\<close> and
  \<^verbatim>\<open>range(i + min_length, n + 1)\<close> is \<open>[i + min_length..n]\<close>, which may start below 0
  when \<^verbatim>\<open>min_length\<close> is negative. The bounds are those of the lowered text; the slice
  added to the set is taken from the original text.
\<close>

definition find_palindromes :: "py_runtime \<Rightarrow> pystr \<Rightarrow> int \<Rightarrow> pystr set" where
  "find_palindromes rt text min_length =
     (if text = [] \<or> int (length text) < min_length then {}
      else
        let text_lower = lower rt text;
            n = length text_lower
        in fold (\<lambda>i palindromes.
             fold (\<lambda>j palindromes.
               let substring = slice_up text_lower (Some (int i)) (Some j)
               in if isalnum rt substring \<and> substring = slice_down substring None None
                  then insert (slice_up text (Some (int i)) (Some j)) palindromes
                  else palindromes)
               [int i + min_length..int n] palindromes)
             [0..<n] {})"

definition generate_palindrome :: "pystr \<Rightarrow> pystr" where
  "generate_palindrome word =
     (if word = [] then [] else word @ slice_down word (Some (- 2)) None)"

definition generate_palindrome_symmetric :: "pystr \<Rightarrow> pystr" where
  "generate_palindrome_symmetric word =
     (if word = [] then []
      else if 1 < length word then word @ slice_down word (Some (- 2)) None else word)"

subsection \<open>Sample inputs\<close>

text \<open>
  ASCII text is written as an Isabelle string and turned into code points. The sample
  runtime has the two rows of the character database that the examples below reach:
  U+0130 (a cased letter) lowers to U+0069 U+0307, and U+0307 (a combining mark) is not
  alphanumeric. Its digit limit is CPython's default.
\<close>

definition ascii :: "string \<Rightarrow> pystr" where
  "ascii s = map of_char s"

definition cpython_sample :: py_runtime where
  "cpython_sample =
     \<lparr> lower_tab = (\<lambda>s i. if s ! i = 304 then [105, 775] else [s ! i]),
       alnum_tab = (\<lambda>c. c = 304),
       int_max_str_digits = 4300 \<rparr>"

section \<open>What the slices compute\<close>

lemma slice_down_all: "slice_down xs None None = rev xs"
proof (rule nth_equalityI)
  show "length (slice_down xs None None) = length (rev xs)"
    by (simp add: slice_down_def)
next
  fix i assume "i < length (slice_down xs None None)"
  then have i: "i < length xs" by (simp add: slice_down_def)
  then have "nat (int (length xs) - 1 - int i) = length xs - Suc i" by linarith
  with i show "slice_down xs None None ! i = rev xs ! i"
    by (simp add: slice_down_def rev_nth)
qed

lemma slice_down_from_minus2: "slice_down xs (Some (- 2)) None = rev (butlast xs)"
proof (rule nth_equalityI)
  show len: "length (slice_down xs (Some (- 2)) None) = length (rev (butlast xs))"
    by (auto simp: slice_down_def adjust_index_def)
  fix i assume "i < length (slice_down xs (Some (- 2)) None)"
  with len have i: "i < length xs - 1" by simp
  then have a: "adjust_index (int (length xs)) True (- 2) = int (length xs) - 2"
    by (auto simp: adjust_index_def)
  from i have n: "nat (int (length xs) - 2 - int i) = length xs - 1 - Suc i" by linarith
  from i have m: "i < nat (int (length xs) - 1)" by linarith
  have "slice_down xs (Some (- 2)) None ! i = xs ! nat (int (length xs) - 2 - int i)"
    using m by (simp add: slice_down_def a)
  also have "\<dots> = xs ! (length xs - 1 - Suc i)"
    by (simp only: n)
  also from i have "\<dots> = butlast xs ! (length xs - 1 - Suc i)"
    by (simp add: nth_butlast)
  also from i have "\<dots> = rev (butlast xs) ! i"
    by (simp add: rev_nth)
  finally show "slice_down xs (Some (- 2)) None ! i = rev (butlast xs) ! i" .
qed

lemma adjust_index_up_range: "0 \<le> len \<Longrightarrow> 0 \<le> adjust_index len False k \<and> adjust_index len False k \<le> len"
  by (simp add: adjust_index_def)

text \<open>
  A forward slice is a \<open>drop\<close> of a \<open>take\<close> at the adjusted bounds, so it reads inside the
  list only.
\<close>

lemma slice_up_take_drop:
  "slice_up xs (Some i) (Some j) =
     drop (nat (adjust_index (int (length xs)) False i))
       (take (nat (adjust_index (int (length xs)) False j)) xs)"
proof -
  define a where "a = adjust_index (int (length xs)) False i"
  define b where "b = adjust_index (int (length xs)) False j"
  have a: "0 \<le> a" "a \<le> int (length xs)" and b: "0 \<le> b" "b \<le> int (length xs)"
    using adjust_index_up_range [of "int (length xs)"] by (simp_all add: a_def b_def)
  have "map (\<lambda>k. xs ! nat (a + int k)) [0..<nat (b - a)] = drop (nat a) (take (nat b) xs)"
  proof (rule nth_equalityI)
    show "length (map (\<lambda>k. xs ! nat (a + int k)) [0..<nat (b - a)]) =
          length (drop (nat a) (take (nat b) xs))"
      using a b by simp
  next
    fix k assume "k < length (map (\<lambda>k. xs ! nat (a + int k)) [0..<nat (b - a)])"
    then have k: "k < nat (b - a)" by simp
    with a have n: "nat (a + int k) = nat a + k" by linarith
    from k a b have "nat a + k < nat b" "nat a \<le> nat b" "nat b \<le> length xs"
      by linarith+
    with k show "map (\<lambda>k. xs ! nat (a + int k)) [0..<nat (b - a)] ! k =
                 drop (nat a) (take (nat b) xs) ! k"
      by (simp add: n)
  qed
  then show ?thesis
    by (simp add: slice_up_def a_def b_def Let_def)
qed

lemma slice_up_nat:
  "j \<le> length xs \<Longrightarrow> slice_up xs (Some (int i)) (Some (int j)) = drop i (take j xs)"
  by (cases "i < length xs") (simp_all add: slice_up_take_drop adjust_index_def)

section \<open>Stripping and lowering\<close>

lemma not_a_zA_Z0_9_iff: "not_a_zA_Z0_9 c \<longleftrightarrow> \<not> ascii_alnum c"
  by (simp add: not_a_zA_Z0_9_def in_ranges_def ascii_alnum_def)

lemma re_sub_delete: "re_sub cls [] s = filter (\<lambda>c. \<not> cls c) s"
  by (induction s) simp_all

lemma strip_filter: "re_sub not_a_zA_Z0_9 [] s = filter ascii_alnum s"
  by (simp add: re_sub_delete not_a_zA_Z0_9_iff)

lemma ascii_alnum_below_128: "ascii_alnum c \<Longrightarrow> c < 128"
  by (auto simp: ascii_alnum_def)

text \<open>
  A character that \<^verbatim>\<open>isalnum\<close> rejects is outside \<^verbatim>\<open>[a-zA-Z0-9]\<close> as well, whatever
  the tables of the runtime say beyond ASCII.
\<close>

lemma ascii_alnum_isalnum_cp: "ascii_alnum c \<Longrightarrow> isalnum_cp rt c"
  by (simp add: isalnum_cp_def ascii_alnum_below_128)

lemma ascii_alnum_lower: "ascii_alnum c \<Longrightarrow> ascii_alnum (ascii_lower c)"
  by (auto simp: ascii_alnum_def ascii_lower_def)

lemma ascii_lower_idem: "ascii_lower (ascii_lower c) = ascii_lower c"
  by (simp add: ascii_lower_def)

text \<open>On text that is ASCII throughout, the table of the runtime is never consulted.\<close>

lemma lower_ascii:
  assumes "list_all (\<lambda>c. c < 128) s"
  shows "lower rt s = map ascii_lower s"
proof -
  have eq: "map (lower_at rt s) [0..<length s] = map (\<lambda>i. [ascii_lower (s ! i)]) [0..<length s]"
    using assms by (simp add: lower_at_def list_all_length)
  have "lower rt s = concat (map (\<lambda>i. [ascii_lower (s ! i)]) [0..<length s])"
    unfolding lower_def by (rule arg_cong [OF eq])
  also have "\<dots> = map (\<lambda>i. ascii_lower (s ! i)) [0..<length s]"
    by (rule concat_map_singleton)
  also have "\<dots> = map ascii_lower (map ((!) s) [0..<length s])"
    by simp
  also have "\<dots> = map ascii_lower s"
    by (simp only: map_nth)
  finally show ?thesis .
qed

lemma lower_Nil: "lower rt [] = []"
  by (simp add: lower_def)

lemma processed_strip_fold:
  "processed rt text True True = map ascii_lower (filter ascii_alnum text)"
proof -
  have "list_all (\<lambda>c. c < 128) (filter ascii_alnum text)"
    by (simp add: list_all_iff ascii_alnum_below_128)
  then show ?thesis
    by (simp add: processed_def strip_filter lower_ascii)
qed

lemma processed_strip_only: "processed rt text False True = filter ascii_alnum text"
  by (simp add: processed_def strip_filter)

lemma processed_idem:
  "processed rt (processed rt text True True) True True = processed rt text True True"
proof -
  have "list_all ascii_alnum (map ascii_lower (filter ascii_alnum text))"
    by (simp add: list_all_iff ascii_alnum_lower)
  then have "filter ascii_alnum (map ascii_lower (filter ascii_alnum text)) =
        map ascii_lower (filter ascii_alnum text)"
    by (simp only: filter_id_conv list_all_iff)
  then show ?thesis
    by (simp add: processed_strip_fold ascii_lower_idem)
qed

section \<open>Decimal digits\<close>

lemma digits_nonempty: "digits n \<noteq> []"
  by (subst digits.simps) simp

lemma digits_last: "last (digits n) = 48 + n mod 10"
  by (subst digits.simps) simp

lemma digits_length_gt: "10 ^ k \<le> n \<Longrightarrow> k < length (digits n)"
proof (induction k arbitrary: n)
  case 0
  then show ?case using digits_nonempty [of n] by (cases "digits n") simp_all
next
  case (Suc k)
  then have p: "10 ^ k * 10 \<le> n" by (simp add: mult.commute)
  have "1 \<le> (10::nat) ^ k" by simp
  with p have "10 \<le> n" by linarith
  moreover from p have "10 ^ k \<le> n div 10"
    by (simp add: less_eq_div_iff_mult_less_eq)
  ultimately show ?case using Suc.IH [of "n div 10"]
    by (subst digits.simps) simp
qed

lemma digits_decimal_value: "decimal_value (digits n) = n"
proof (induction n rule: digits.induct)
  case (1 n)
  show ?case
  proof (cases "n < 10")
    case True
    then show ?thesis
      by (subst digits.simps) (simp add: decimal_value_def)
  next
    case False
    with "1.IH" have "decimal_value (digits (n div 10)) = n div 10" by simp
    with False show ?thesis
      by (subst digits.simps) (simp add: decimal_value_def)
  qed
qed

lemma digits_are_digits: "list_all (\<lambda>d. 48 \<le> d \<and> d \<le> 57) (digits n)"
proof (induction n rule: digits.induct)
  case (1 n)
  have "n mod 10 \<le> 9" by simp
  with "1.IH" show ?case
    by (subst digits.simps) (simp del: mod_less_divisor)
qed

text \<open>The sign is not a digit, so a negative number never reads the same backwards.\<close>

lemma minus_digits_not_palindrome: "45 # digits n \<noteq> rev (45 # digits n)"
proof
  assume "45 # digits n = rev (45 # digits n)"
  then have "last (45 # digits n) = last (rev (45 # digits n))" by simp
  then have "48 + n mod 10 = 45"
    using digits_nonempty [of n] by (simp add: digits_last)
  then show False by simp
qed

section \<open>The generator\<close>

lemma generate_palindrome_mirror:
  "word \<noteq> [] \<Longrightarrow> generate_palindrome word = word @ rev (butlast word)"
  by (simp add: generate_palindrome_def slice_down_from_minus2)

text \<open>
  Claim C1. For every non-empty word, the output of \<^verbatim>\<open>generate_palindrome\<close> is a
  palindrome under the strict check: \<^verbatim>\<open>is_strict_palindrome(generate_palindrome(w))\<close> is
  true.
\<close>

theorem generate_palindrome_is_strict_palindrome:
  assumes "w \<noteq> []"
  shows "is_strict_palindrome (generate_palindrome w)"
proof -
  from assms have w: "w = butlast w @ [last w]" by simp
  have "rev (w @ rev (butlast w)) = butlast w @ rev w" by simp
  also have "rev w = last w # rev (butlast w)" by (subst w) simp
  also have "butlast w @ last w # rev (butlast w) = w @ rev (butlast w)"
    using w by (metis append.assoc append_Cons append_Nil)
  finally have "w @ rev (butlast w) = rev (w @ rev (butlast w))" by (rule sym)
  then have "generate_palindrome w = rev (generate_palindrome w)"
    unfolding generate_palindrome_mirror [OF assms] .
  moreover from assms have "generate_palindrome w \<noteq> []"
    by (simp add: generate_palindrome_mirror)
  ultimately show ?thesis
    by (simp add: is_strict_palindrome_def slice_down_all)
qed

theorem generate_palindrome_is_strict_palindrome_witness:
  "ascii ''ab'' \<noteq> [] \<and> generate_palindrome (ascii ''ab'') = ascii ''aba''
   \<and> is_strict_palindrome (generate_palindrome (ascii ''ab''))"
  using generate_palindrome_is_strict_palindrome [of "ascii ''ab''"]
  by (simp add: ascii_def generate_palindrome_mirror)

text \<open>
  Claim C4. For every word, of any length, \<^verbatim>\<open>generate_palindrome_symmetric\<close> returns what
  \<^verbatim>\<open>generate_palindrome\<close> returns: the special case for length at most 1 changes
  nothing.
\<close>

theorem generate_palindrome_symmetric_eq: "generate_palindrome_symmetric w = generate_palindrome w"
proof (cases "1 < length w")
  case True
  then show ?thesis
    by (simp add: generate_palindrome_symmetric_def generate_palindrome_def)
next
  case False
  then have "butlast w = []"
    by (cases w) (simp_all split: if_splits)
  then show ?thesis
    by (simp add: generate_palindrome_symmetric_def generate_palindrome_def
        slice_down_from_minus2)
qed

theorem generate_palindrome_symmetric_eq_witness:
  "generate_palindrome_symmetric [] = generate_palindrome []
   \<and> generate_palindrome_symmetric (ascii ''a'') = generate_palindrome (ascii ''a'')
   \<and> generate_palindrome_symmetric (ascii ''ab'') = ascii ''aba''"
  using generate_palindrome_symmetric_eq [of "[]"] generate_palindrome_symmetric_eq [of "ascii ''a''"]
    generate_palindrome_symmetric_eq [of "ascii ''ab''"]
  by (simp add: ascii_def generate_palindrome_mirror)

text \<open>
  Claim C10. For every non-empty word \<open>w\<close>, \<^verbatim>\<open>generate_palindrome(w)\<close> has length
  \<open>2 * len(w) - 1\<close> and starts with \<open>w\<close>.
\<close>

theorem generate_palindrome_length_prefix:
  assumes "w \<noteq> []"
  shows "length (generate_palindrome w) = 2 * length w - 1 \<and> prefix w (generate_palindrome w)"
  using assms by (simp add: generate_palindrome_mirror)

theorem generate_palindrome_length_prefix_witness:
  "ascii ''hello'' \<noteq> [] \<and> length (generate_palindrome (ascii ''hello'')) = 9
   \<and> prefix (ascii ''hello'') (generate_palindrome (ascii ''hello''))"
  using generate_palindrome_length_prefix [of "ascii ''hello''"]
  by (simp add: ascii_def)

section \<open>The checks on text\<close>

lemma is_palindrome_rev:
  "is_palindrome rt text c s \<longleftrightarrow> text \<noteq> [] \<and> processed rt text c s = rev (processed rt text c s)"
  by (simp add: is_palindrome_def slice_down_all Let_def)

text \<open>
  Claim C7. The empty string is never a palindrome: \<^verbatim>\<open>is_palindrome("", c, s)\<close> is false
  for each of the four settings of the two options, and \<^verbatim>\<open>is_strict_palindrome("")\<close> is
  false.
\<close>

theorem empty_is_no_palindrome:
  "\<not> is_palindrome rt [] ignore_case ignore_spaces \<and> \<not> is_strict_palindrome []"
  by (simp add: is_palindrome_def is_strict_palindrome_def)

text \<open>
  Claim C9. For every non-empty text without a single character of the class
  \<^verbatim>\<open>[a-zA-Z0-9]\<close> (such as \<^verbatim>\<open>"!!!"\<close>), \<^verbatim>\<open>is_palindrome(text, c, True)\<close> is true for
  either value of the case option: the stripped text is empty and equals its reversal.
  The literal empty text gives false. A text whose characters \<^verbatim>\<open>isalnum\<close> all rejects
  is such a text (\<open>ascii_alnum_isalnum_cp\<close>).
\<close>

theorem stripped_to_nothing_is_palindrome:
  assumes "text \<noteq> []" and "\<not> list_ex ascii_alnum text"
  shows "processed rt text ignore_case True = []
         \<and> is_palindrome rt text ignore_case True
         \<and> \<not> is_palindrome rt [] ignore_case True"
proof -
  from assms(2) have "filter ascii_alnum text = []"
    by (simp add: filter_empty_conv list_ex_iff)
  then have "processed rt text ignore_case True = []"
    by (simp add: processed_def strip_filter lower_Nil)
  with assms(1) show ?thesis
    by (simp add: is_palindrome_rev)
qed

theorem stripped_to_nothing_is_palindrome_witness:
  "ascii ''!!!'' \<noteq> [] \<and> \<not> list_ex ascii_alnum (ascii ''!!!'')
   \<and> is_palindrome cpython_sample (ascii ''!!!'') True True
   \<and> is_palindrome cpython_sample (ascii ''!!!'') False True
   \<and> \<not> is_palindrome cpython_sample [] True True"
  using stripped_to_nothing_is_palindrome [of "ascii ''!!!''" cpython_sample True]
    stripped_to_nothing_is_palindrome [of "ascii ''!!!''" cpython_sample False]
  by (simp add: ascii_def ascii_alnum_def)

text \<open>
  Claim C2, as stated: for every string \<open>s\<close>, \<^verbatim>\<open>is_palindrome\<close> (both options on) gives
  the same verdict on the normalized \<open>s\<close> as on \<open>s\<close> itself. It fails at \<^verbatim>\<open>"!!!"\<close>:
  the text itself is accepted, since it strips to the empty string, while its normalized
  form is the empty string, which the guard rejects.
\<close>

theorem normalized_verdict_differs:
  "is_palindrome cpython_sample (ascii ''!!!'') True True
   \<and> \<not> is_palindrome cpython_sample (processed cpython_sample (ascii ''!!!'') True True) True True"
  by (simp add: is_palindrome_rev processed_strip_fold ascii_def ascii_alnum_def)

text \<open>
  Claim C2, amended: the verdict of \<^verbatim>\<open>is_palindrome\<close> (both options on) on the
  normalized \<open>s\<close> equals the verdict on \<open>s\<close> exactly when \<open>s\<close> is empty or has at
  least one character of \<^verbatim>\<open>[a-zA-Z0-9]\<close>; in particular it does for every \<open>s\<close> with such
  a character.
\<close>

theorem normalized_verdict_same_iff:
  "(is_palindrome rt (processed rt s True True) True True = is_palindrome rt s True True)
   \<longleftrightarrow> (s = [] \<or> list_ex ascii_alnum s)"
proof (cases "list_ex ascii_alnum s")
  case True
  then have "filter ascii_alnum s \<noteq> []" and "s \<noteq> []"
    by (auto simp: filter_empty_conv list_ex_iff)
  then have "processed rt s True True \<noteq> []"
    by (simp add: processed_strip_fold)
  with True \<open>s \<noteq> []\<close> show ?thesis
    by (simp add: is_palindrome_rev processed_idem)
next
  case False
  then have "filter ascii_alnum s = []"
    by (simp add: filter_empty_conv list_ex_iff)
  then have "processed rt s True True = []"
    by (simp add: processed_strip_fold)
  with False show ?thesis
    by (simp add: is_palindrome_rev)
qed

theorem normalized_verdict_same_iff_witness:
  "list_ex ascii_alnum (ascii ''A b, a'')
   \<and> processed cpython_sample (ascii ''A b, a'') True True = ascii ''aba''
   \<and> is_palindrome cpython_sample (ascii ''A b, a'') True True
   \<and> is_palindrome cpython_sample (processed cpython_sample (ascii ''A b, a'') True True) True True"
proof -
  have a: "list_ex ascii_alnum (ascii ''A b, a'')"
    by (simp add: ascii_def ascii_alnum_def)
  have p: "processed cpython_sample (ascii ''A b, a'') True True = ascii ''aba''"
    by (simp add: processed_strip_fold ascii_def ascii_alnum_def ascii_lower_def)
  have d: "is_palindrome cpython_sample (ascii ''A b, a'') True True"
    by (simp add: is_palindrome_rev p) (simp add: ascii_def)
  from a d normalized_verdict_same_iff [of cpython_sample "ascii ''A b, a''"]
  have "is_palindrome cpython_sample (processed cpython_sample (ascii ''A b, a'') True True) True True"
    by simp
  with a p d show ?thesis by simp
qed

text \<open>
  Claim C3, as stated: with the strip option on, a non-ASCII letter of the input is still
  present in the normalized text. It fails at the one-letter text U+00E9 (e with acute
  accent, code point 233): the class \<^verbatim>\<open>[^a-zA-Z0-9]\<close> matches it, so \<^verbatim>\<open>re.sub\<close>
  deletes it.
\<close>

theorem non_ascii_letter_is_stripped:
  "233 \<in> set [233::nat]
   \<and> 233 \<notin> set (processed cpython_sample [233] False True)
   \<and> 233 \<notin> set (processed cpython_sample [233] True True)"
  by (simp add: processed_strip_fold processed_strip_only ascii_alnum_def)

text \<open>
  Claim C3, amended: with the strip option on, stripping keeps exactly the characters of
  \<^verbatim>\<open>[a-zA-Z0-9]\<close>, in their order, and deletes every other one, non-ASCII letters
  included: the normalized text used for the comparison holds ASCII letters and digits
  only (the kept characters, lowered when the case option is on), so no character from
  U+0080 on is present in it.
\<close>

theorem strip_keeps_ascii_alnum_only:
  "processed rt text False True = filter ascii_alnum text
   \<and> processed rt text True True = map ascii_lower (filter ascii_alnum text)
   \<and> list_all ascii_alnum (processed rt text ignore_case True)
   \<and> \<not> list_ex (\<lambda>c. 128 \<le> c) (processed rt text ignore_case True)"
proof -
  have "list_all ascii_alnum (processed rt text ignore_case True)"
    by (cases ignore_case)
      (simp_all add: processed_strip_fold processed_strip_only list_all_iff ascii_alnum_lower)
  moreover from this have "\<not> list_ex (\<lambda>c. 128 \<le> c) (processed rt text ignore_case True)"
    using ascii_alnum_below_128 by (fastforce simp: list_all_iff list_ex_iff)
  ultimately show ?thesis
    by (simp add: processed_strip_fold processed_strip_only)
qed

theorem strip_keeps_ascii_alnum_only_witness:
  "processed cpython_sample [233, 65, 33, 304, 98] False True = [65, 98]
   \<and> processed cpython_sample [233, 65, 33, 304, 98] True True = [97, 98]"
  using strip_keeps_ascii_alnum_only [of cpython_sample "[233, 65, 33, 304, 98]"]
  by (simp add: ascii_alnum_def ascii_lower_def)

section \<open>The check on numbers\<close>

lemma str_int_within_limit:
  assumes "int_max_str_digits rt = 0 \<or> length (digits (nat \<bar>n\<bar>)) \<le> int_max_str_digits rt"
  shows "str_int rt n = Inr (if n < 0 then 45 # digits (nat \<bar>n\<bar>) else digits (nat \<bar>n\<bar>))"
  using assms by (auto simp: str_int_def Let_def)

lemma str_int_beyond_limit:
  assumes "int_max_str_digits rt \<noteq> 0" and "int_max_str_digits rt < length (digits (nat \<bar>n\<bar>))"
  shows "str_int rt n = Inl ValueError"
  using assms by (simp add: str_int_def Let_def)

lemma str_int_power_of_ten_raises:
  assumes "int_max_str_digits rt \<noteq> 0" and "\<bar>n\<bar> = 10 ^ int_max_str_digits rt"
  shows "str_int rt n = Inl ValueError"
proof -
  from assms(2) have "nat \<bar>n\<bar> = 10 ^ int_max_str_digits rt"
    by (simp add: nat_power_eq)
  then have "int_max_str_digits rt < length (digits (nat \<bar>n\<bar>))"
    using digits_length_gt [of "int_max_str_digits rt" "nat \<bar>n\<bar>"] by simp
  with assms(1) show ?thesis by (rule str_int_beyond_limit)
qed

lemma abs_minus_power_of_ten: "\<bar>- ((10::int) ^ k)\<bar> = 10 ^ k"
  by simp


lemma cpython_sample_limit: "int_max_str_digits cpython_sample = 4300"
  by (simp add: cpython_sample_def)

text \<open>
  Claim C6, as stated: for every negative integer \<open>n\<close>, \<^verbatim>\<open>is_number_palindrome(n)\<close> is
  false. It fails at \<open>n = - 10 ^ 4300\<close>, a number of 4301 digits, on an interpreter with
  the digit limit 4300: \<^verbatim>\<open>str(n)\<close> raises \<^verbatim>\<open>ValueError\<close> and nothing is returned.
\<close>

theorem huge_negative_raises:
  "is_number_palindrome cpython_sample (IntArg (- (10 ^ 4300))) = Inl ValueError"
proof -
  have "\<bar>- ((10::int) ^ 4300)\<bar> = 10 ^ int_max_str_digits cpython_sample"
    unfolding cpython_sample_limit by (rule abs_minus_power_of_ten)
  then have "str_int cpython_sample (- (10 ^ 4300)) = Inl ValueError"
    by (rule str_int_power_of_ten_raises [rotated]) (simp add: cpython_sample_limit)
  then show ?thesis
    by (simp only: is_number_palindrome_def py_str_def number_arg.case sum.case)
qed

text \<open>
  Claim C6, amended: \<^verbatim>\<open>is_number_palindrome\<close> returns whether the string of its argument
  equals its own reversal, where a \<^verbatim>\<open>str\<close> argument is taken as it is and an \<^verbatim>\<open>int\<close> is
  written in decimal (the digits read back give its absolute value) with its sign, nothing
  stripped; this for every integer that has no more digits than the interpreter's limit
  (or with the limit off). For every negative
  such integer the result is false, since the minus sign is compared too. An integer with
  more digits raises \<^verbatim>\<open>ValueError\<close>.
\<close>

theorem is_number_palindrome_compares_str:
  "is_number_palindrome rt (StrArg s) = Inr (s = rev s)
   \<and> decimal_value (digits (nat \<bar>n\<bar>)) = nat \<bar>n\<bar>
   \<and> list_all (\<lambda>d. 48 \<le> d \<and> d \<le> 57) (digits (nat \<bar>n\<bar>))
   \<and> (int_max_str_digits rt = 0 \<or> length (digits (nat \<bar>n\<bar>)) \<le> int_max_str_digits rt \<longrightarrow>
        py_str rt (IntArg n) = Inr (if n < 0 then 45 # digits (nat \<bar>n\<bar>) else digits (nat \<bar>n\<bar>))
        \<and> is_number_palindrome rt (IntArg n) =
            Inr ((if n < 0 then 45 # digits (nat \<bar>n\<bar>) else digits (nat \<bar>n\<bar>)) =
                 rev (if n < 0 then 45 # digits (nat \<bar>n\<bar>) else digits (nat \<bar>n\<bar>)))
        \<and> (n < 0 \<longrightarrow> is_number_palindrome rt (IntArg n) = Inr False))"
proof (intro conjI impI)
  show "is_number_palindrome rt (StrArg s) = Inr (s = rev s)"
    by (simp add: is_number_palindrome_def py_str_def slice_down_all)
next
  show "decimal_value (digits (nat \<bar>n\<bar>)) = nat \<bar>n\<bar>"
    by (rule digits_decimal_value)
next
  show "list_all (\<lambda>d. 48 \<le> d \<and> d \<le> 57) (digits (nat \<bar>n\<bar>))"
    by (rule digits_are_digits)
next
  assume lim: "int_max_str_digits rt = 0 \<or> length (digits (nat \<bar>n\<bar>)) \<le> int_max_str_digits rt"
  let ?str = "if n < 0 then 45 # digits (nat \<bar>n\<bar>) else digits (nat \<bar>n\<bar>)"
  from lim show str: "py_str rt (IntArg n) = Inr ?str"
    by (simp only: py_str_def number_arg.case str_int_within_limit)
  then show cmp: "is_number_palindrome rt (IntArg n) = Inr (?str = rev ?str)"
    by (simp only: is_number_palindrome_def sum.case slice_down_all)
  assume "n < 0"
  then have "?str = 45 # digits (nat \<bar>n\<bar>)" by simp
  then have "?str \<noteq> rev ?str"
    using minus_digits_not_palindrome [of "nat \<bar>n\<bar>"] by metis
  with cmp show "is_number_palindrome rt (IntArg n) = Inr False"
    by (simp only: simp_thms)
qed

lemma digits_121: "digits 121 = [49, 50, 49]"
  by (simp add: digits.simps)

theorem is_number_palindrome_compares_str_witness:
  "(- 121 :: int) < 0
   \<and> length (digits (nat \<bar>- 121\<bar>)) \<le> int_max_str_digits cpython_sample
   \<and> py_str cpython_sample (IntArg (- 121)) = Inr (ascii ''-121'')
   \<and> is_number_palindrome cpython_sample (IntArg (- 121)) = Inr False
   \<and> is_number_palindrome cpython_sample (IntArg 121) = Inr True
   \<and> is_number_palindrome cpython_sample (StrArg (ascii ''-121'')) = Inr False"
  using is_number_palindrome_compares_str [of cpython_sample "ascii ''-121''" "- 121"]
    is_number_palindrome_compares_str [of cpython_sample "[]" "121"]
  by (simp add: cpython_sample_limit digits_121 ascii_def)

section \<open>The substring finder\<close>

lemma fold_insert_if:
  "fold (\<lambda>j acc. if P j then insert (g j) acc else acc) js acc = acc \<union> g ` {j \<in> set js. P j}"
  by (induction js arbitrary: acc) auto

lemma fold_insert_if_fun:
  "fold (\<lambda>j acc. if P j then insert (g j) acc else acc) js = (\<lambda>acc. acc \<union> g ` {j \<in> set js. P j})"
  by (rule ext) (rule fold_insert_if)

lemma fold_union: "fold (\<lambda>i acc. acc \<union> S i) js acc = acc \<union> (\<Union>i\<in>set js. S i)"
  by (induction js arbitrary: acc) auto

text \<open>The two loops as a set: which slices of the text end up in the result.\<close>

lemma find_palindromes_set:
  "find_palindromes rt text k =
     (if text = [] \<or> int (length text) < k then {}
      else (\<Union>i \<in> {0..<length (lower rt text)}.
              (\<lambda>j. slice_up text (Some (int i)) (Some j)) `
                {j \<in> {int i + k..int (length (lower rt text))}.
                   isalnum rt (slice_up (lower rt text) (Some (int i)) (Some j)) \<and>
                   slice_up (lower rt text) (Some (int i)) (Some j) =
                     rev (slice_up (lower rt text) (Some (int i)) (Some j))}))"
  by (simp add: find_palindromes_def Let_def slice_down_all fold_insert_if_fun fold_union)



lemma slice_up_map: "slice_up (map f xs) (Some i) (Some j) = map f (slice_up xs (Some i) (Some j))"
  by (simp add: slice_up_take_drop take_map drop_map)

lemma slice_up_length:
  "i < length xs \<Longrightarrow> int i + k \<le> j \<Longrightarrow> j \<le> int (length xs) \<Longrightarrow>
   k \<le> int (length (slice_up xs (Some (int i)) (Some j)))"
  by (auto simp: slice_up_take_drop adjust_index_def)

lemma slice_up_subset: "set (slice_up xs (Some i) (Some j)) \<subseteq> set xs"
  by (auto simp: slice_up_take_drop dest: in_set_dropD in_set_takeD)

lemma ascii_alnum_of_lower: "ascii_alnum (ascii_lower c) \<Longrightarrow> ascii_alnum c"
  by (auto simp: ascii_alnum_def ascii_lower_def split: if_splits)

text \<open>
  On ASCII text the lowered text has the positions of the text, and every slice found is
  as long as asked, alphanumeric, and a palindrome once lowered.
\<close>

lemma find_palindromes_ascii:
  assumes ascii: "list_all (\<lambda>c. c < 128) text" and p: "p \<in> find_palindromes rt text k"
  shows "k \<le> int (length p) \<and> isalnum rt p \<and> map ascii_lower p = rev (map ascii_lower p)"
proof -
  have low: "lower rt text = map ascii_lower text"
    using ascii by (rule lower_ascii)
  from p obtain i j where i: "i < length text" and j: "int i + k \<le> j" "j \<le> int (length text)"
    and pe: "p = slice_up text (Some (int i)) (Some j)"
    and al: "isalnum rt (map ascii_lower p)" and pal: "map ascii_lower p = rev (map ascii_lower p)"
    by (auto simp: find_palindromes_set low slice_up_map split: if_splits)
  have "k \<le> int (length p)"
    unfolding pe using i j by (rule slice_up_length)
  moreover have "isalnum rt p"
  proof -
    have "set p \<subseteq> set text" unfolding pe by (rule slice_up_subset)
    with ascii have lt: "\<forall>c \<in> set p. c < 128" by (auto simp: list_all_iff)
    then have "\<forall>c \<in> set p. ascii_lower c < 128" by (auto simp: ascii_lower_def)
    with al lt show ?thesis
      by (auto simp: isalnum_def isalnum_cp_def list_all_iff dest: ascii_alnum_of_lower)
  qed
  ultimately show ?thesis using pal by simp
qed

lemma lower_dotted_I_aaa_bang:
  "lower cpython_sample [304, 97, 97, 97, 33] = [105, 775, 97, 97, 97, 33]"
  by (simp add: lower_def lower_at_def ascii_lower_def cpython_sample_def upt_rec nth_Cons')

lemma lower_dotted_I_aaa: "lower cpython_sample [304, 97, 97, 97] = [105, 775, 97, 97, 97]"
  by (simp add: lower_def lower_at_def ascii_lower_def cpython_sample_def upt_rec nth_Cons')

lemmas find_palindromes_eval =
  Let_def upt_rec upto_rec1 slice_up_def slice_down_all adjust_index_def isalnum_def
  isalnum_cp_def ascii_alnum_def cpython_sample_def nth_Cons'

text \<open>
  Claim C5: for every text and threshold \<open>k\<close>, every element of
  \<^verbatim>\<open>find_palindromes(text, k)\<close> has length at least \<open>k\<close> and is alphanumeric. The code
  breaks it where \<^verbatim>\<open>lower\<close> changes the length of the text. The text U+0130 \<^verbatim>\<open>aaa!\<close>
  lowers to \<^verbatim>\<open>i\<close> U+0307 \<^verbatim>\<open>aaa!\<close>, one position longer; the palindrome \<^verbatim>\<open>aaa\<close> is
  found at positions 2 to 5 of the lowered text, and the same positions of the text hold
  \<^verbatim>\<open>aa!\<close>, which is added. Without the final \<^verbatim>\<open>!\<close> the slice added is \<^verbatim>\<open>aa\<close>, shorter
  than the threshold 3.
\<close>

theorem find_palindromes_misaligned:
  "find_palindromes cpython_sample [304, 97, 97, 97, 33] 3 = {[97, 97, 33]}
   \<and> \<not> isalnum cpython_sample [97, 97, 33]
   \<and> find_palindromes cpython_sample [304, 97, 97, 97] 3 = {[97, 97]}
   \<and> int (length [97::nat, 97]) < 3"
proof -
  have "find_palindromes cpython_sample [304, 97, 97, 97, 33] 3 = {[97, 97, 33]}"
    unfolding find_palindromes_def lower_dotted_I_aaa_bang
    by (simp add: find_palindromes_eval)
  moreover have "find_palindromes cpython_sample [304, 97, 97, 97] 3 = {[97, 97]}"
    unfolding find_palindromes_def lower_dotted_I_aaa
    by (simp add: find_palindromes_eval)
  moreover have "\<not> isalnum cpython_sample [97, 97, 33]"
    by (simp add: isalnum_def isalnum_cp_def ascii_alnum_def)
  ultimately show ?thesis by simp
qed

section \<open>Which operations can raise\<close>





end
